theory Spec2Isabelle
  imports Main "HOL-Library.AList"
begin

section \<open>JavaScript string helpers\<close>

text \<open>
  A JavaScript string is modelled as a \<open>string\<close>: the list of its code units.
  The helpers below are the \<open>String.prototype\<close> methods the server uses.
\<close>

text \<open>\<open>s.endsWith(t)\<close>\<close>

definition endsWith :: "string \<Rightarrow> string \<Rightarrow> bool" where
  "endsWith s t = (length t \<le> length s \<and> drop (length s - length t) s = t)"

text \<open>\<open>s.startsWith(t)\<close>\<close>

definition startsWith :: "string \<Rightarrow> string \<Rightarrow> bool" where
  "startsWith s t = (take (length t) s = t)"

text \<open>\<open>s.slice(0, -n)\<close> for a positive \<open>n\<close>: the end index \<open>length - n\<close> is clamped at 0.\<close>

definition slice_end :: "string \<Rightarrow> nat \<Rightarrow> string" where
  "slice_end s n = take (length s - n) s"

section \<open>Path utilities\<close>

datatype TrailingSlash = Never | Always | Ignore

text \<open>
  \<^verbatim>\<open>
  function normalize_path(path, trailing_slash) {
    if (path === '/' || trailing_slash === 'ignore') return path;
    if (trailing_slash === 'never') {
      return path.endsWith('/') ? path.slice(0, -1) : path;
    } else if (trailing_slash === 'always' && !path.endsWith('/')) {
      return path + '/';
    }
    return path;
  }
  \<close>
\<close>

definition normalize_path :: "string \<Rightarrow> TrailingSlash \<Rightarrow> string" where
  "normalize_path path trailing_slash =
     (if path = ''/'' \<or> trailing_slash = Ignore then path
      else if trailing_slash = Never then
        (if endsWith path ''/'' then slice_end path 1 else path)
      else if trailing_slash = Always \<and> \<not> endsWith path ''/'' then path @ ''/''
      else path)"

definition DATA_SUFFIX :: string where
  "DATA_SUFFIX = ''/__data.json''"

definition has_data_suffix :: "string \<Rightarrow> bool" where
  "has_data_suffix pathname = endsWith pathname DATA_SUFFIX"

text \<open>\<open>pathname.replace(/\/$/, '') + DATA_SUFFIX\<close>: one trailing slash is removed.\<close>

definition add_data_suffix :: "string \<Rightarrow> string" where
  "add_data_suffix pathname =
     (if endsWith pathname ''/'' then slice_end pathname 1 else pathname) @ DATA_SUFFIX"

text \<open>\<open>pathname.slice(0, -DATA_SUFFIX.length)\<close>: the last twelve code units are cut
  off, whatever they are.\<close>

definition strip_data_suffix :: "string \<Rightarrow> string" where
  "strip_data_suffix pathname = slice_end pathname (length DATA_SUFFIX)"

section \<open>Values, errors and the request event\<close>

text \<open>
  The JavaScript values an action or a load function can hand back. Numbers are
  restricted to integers; an object is the list of its own properties. Only the
  truthiness of a value is inspected by the server code modelled here.
\<close>

datatype js_value =
    JUndefined
  | JNull
  | JBool bool
  | JNumber int
  | JString string
  | JObject "(string \<times> js_value) list"

fun truthy :: "js_value \<Rightarrow> bool" where
  "truthy JUndefined = False"
| "truthy JNull = False"
| "truthy (JBool b) = b"
| "truthy (JNumber n) = (n \<noteq> 0)"
| "truthy (JString s) = (s \<noteq> [])"
| "truthy (JObject ps) = True"

text \<open>\<open>App.Error\<close>: the public error body; its \<open>message\<close> is the one field the server reads.\<close>

datatype app_error = AppError (message: string)

text \<open>
  What a \<open>throw\<close> can carry: the three marker classes \<open>Redirect\<close>,
  \<open>HttpError\<close>, \<open>ActionFailure\<close> (which is meant to be returned, not thrown), and
  anything else, represented by an \<open>Error\<close> with its message.
\<close>

datatype thrown =
    Redirect nat string
  | HttpError nat app_error
  | ThrownActionFailure nat js_value
  | Error string

fun is_Redirect :: "thrown \<Rightarrow> bool" where
  "is_Redirect (Redirect s l) = True"
| "is_Redirect _ = False"

fun is_HttpError :: "thrown \<Rightarrow> bool" where
  "is_HttpError (HttpError st b) = True"
| "is_HttpError _ = False"

text \<open>\<open>err instanceof HttpError ? err.status : 500\<close>\<close>

fun error_status :: "thrown \<Rightarrow> nat" where
  "error_status (HttpError st b) = st"
| "error_status _ = 500"

text \<open>
  The part of the \<open>RequestEvent\<close> the modelled functions read. Two fields stand for
  header computations that are not modelled: \<open>accepts_json\<close> is
  \<open>negotiate(accept ?? '*/*', ['application/json', 'text/html']) === 'application/json'\<close>
  and \<open>form_content_type\<close> is \<open>is_form_content_type(event.request)\<close>.
\<close>

record request_event =
  request_method :: string
  accepts_json :: bool
  form_content_type :: bool
  content_type :: "string option"
  search_params :: "(string \<times> string) list"
  pathname :: string
  route_id :: "string option"

text \<open>
  \<^verbatim>\<open>
  async function handle_error_and_jsonify(event, options, error) {
    if (error instanceof HttpError) return error.body;
    else return (await options.hooks.handleError({ error, event })) ??
      { message: event.route.id != null ? 'Internal Error' : 'Not Found' };
  }
  \<close>
  The \<open>handleError\<close> hook is a parameter; \<open>None\<close> is a hook that returns nothing.
\<close>

fun handle_error_and_jsonify ::
  "request_event \<Rightarrow> (thrown \<Rightarrow> app_error option) \<Rightarrow> thrown \<Rightarrow> app_error" where
  "handle_error_and_jsonify event handleError (HttpError st b) = b"
| "handle_error_and_jsonify event handleError e =
     (case handleError e of
        Some b \<Rightarrow> b
      | None \<Rightarrow> AppError (if route_id event \<noteq> None then ''Internal Error'' else ''Not Found''))"

section \<open>Action dispatcher\<close>

text \<open>
  An action is a user function of the event. It is represented by what it does on
  the request at hand: it returns an \<open>ActionFailure\<close> or some other value, or it
  throws.
\<close>

datatype action_return = ActionFailure nat js_value | Value js_value

datatype action_outcome = Returns action_return | Throws thrown

text \<open>
  The \<open>actions\<close> export, an object: its own properties, in order, and what it
  inherits. \<open>inherited_actions\<close> gives, for a name that the prototype chain of the
  object defines, what that inherited property does when it is called as
  \<open>action(event)\<close> (for a plain object the members of \<open>Object.prototype\<close>, such as
  \<open>toString\<close>), and \<open>None\<close> for every other name.
\<close>

record actions_object =
  own_actions :: "(string \<times> action_outcome) list"
  inherited_actions :: "string \<Rightarrow> action_outcome option"

text \<open>\<open>actions[name]\<close>: an own property, else an inherited one.\<close>

definition lookup_action :: "actions_object \<Rightarrow> string \<Rightarrow> action_outcome option" where
  "lookup_action acts nm =
     (case map_of (own_actions acts) nm of
        Some action \<Rightarrow> Some action
      | None \<Rightarrow> inherited_actions acts nm)"

text \<open>
  \<^verbatim>\<open>
  function check_named_default_separate(actions) {
    if (actions.default && Object.keys(actions).length > 1) throw new Error(...);
  }
  \<close>
\<close>

definition check_named_default_separate :: "actions_object \<Rightarrow> thrown option" where
  "check_named_default_separate acts =
     (if lookup_action acts ''default'' \<noteq> None \<and> length (remdups (map fst (own_actions acts))) > 1
      then Some (Error ''When using named actions, the default action cannot be used. See the docs for more info: https://kit.svelte.dev/docs/form-actions#named-actions'')
      else None)"

text \<open>
  The loop of \<open>call_action\<close> over \<open>url.searchParams\<close>: the first key that starts
  with a slash names the action; the reserved name \<open>default\<close> is refused.
\<close>

fun action_name :: "(string \<times> string) list \<Rightarrow> thrown + string" where
  "action_name [] = Inr ''default''"
| "action_name (param # rest) =
     (if startsWith (fst param) ''/'' then
        (if drop 1 (fst param) = ''default''
         then Inl (Error (''Cannot use reserved action name '' @ [CHR 0x22] @ ''default'' @ [CHR 0x22]))
         else Inr (drop 1 (fst param)))
      else action_name rest)"

text \<open>
  \<^verbatim>\<open>
  async function call_action(event, actions) {
    ... name ...
    const action = actions[name];
    if (!action) throw new Error(`No action with name '${name}' found`);
    if (!is_form_content_type(event.request)) throw new Error(`Actions expect form-encoded data ...`);
    return action(event);
  }
  \<close>
\<close>

definition call_action :: "request_event \<Rightarrow> actions_object \<Rightarrow> action_outcome" where
  "call_action event acts =
     (case action_name (search_params event) of
        Inl e \<Rightarrow> Throws e
      | Inr name \<Rightarrow>
          (case lookup_action acts name of
             None \<Rightarrow> Throws (Error (''No action with name '' @ [CHR 0x27] @ name @ [CHR 0x27] @ '' found''))
           | Some action \<Rightarrow>
               if \<not> form_content_type event
               then Throws (Error (''Actions expect form-encoded data (received '' @
                      (case content_type event of None \<Rightarrow> ''null'' | Some t \<Rightarrow> t) @ '')''))
               else action))"

text \<open>\<open>error instanceof ActionFailure ? new Error(`Cannot "throw fail()". ...`) : error\<close>\<close>

fun check_incorrect_fail_use :: "thrown \<Rightarrow> thrown" where
  "check_incorrect_fail_use (ThrownActionFailure st d) =
     Error (''Cannot '' @ [CHR 0x22] @ ''throw fail()'' @ [CHR 0x22] @ ''. Use '' @
            [CHR 0x22] @ ''return fail()'' @ [CHR 0x22])"
| "check_incorrect_fail_use e = e"

text \<open>
  \<open>try_deserialize(data, fn, route_id)\<close> with \<open>fn = devalue.stringify\<close>, which is a
  parameter: it gives the encoded string, or fails with a message and a property path.
\<close>

definition stringify_action_response ::
  "(js_value \<Rightarrow> (string \<times> string) + string) \<Rightarrow> js_value \<Rightarrow> string option \<Rightarrow> thrown + string" where
  "stringify_action_response stringify data rid =
     (case stringify data of
        Inr s \<Rightarrow> Inr s
      | Inl (msg, path) \<Rightarrow>
          Inl (Error (''Data returned from action inside '' @
                 (case rid of None \<Rightarrow> ''null'' | Some r \<Rightarrow> r) @
                 '' is not serializable: '' @ msg @
                 (if path \<noteq> [] then '' (data.'' @ path @ '')'' else []))))"

text \<open>The \<open>ActionResult\<close> of the page-action path.\<close>

datatype action_result =
    ARSuccess nat js_value
  | ARFailure nat js_value
  | ARRedirect nat string
  | ARError thrown

text \<open>
  The envelope of the JSON protocol. \<open>action_json(data, init)\<close> is
  \<open>json(data, init)\<close>; the call is recorded with its arguments (the HTTP status is
  \<open>init.status\<close>, 200 when absent).
\<close>

datatype action_envelope =
    EnvSuccess nat string
  | EnvFailure nat string
  | EnvRedirect nat string
  | EnvError app_error

record action_json =
  envelope :: action_envelope
  init_status :: "nat option"
  init_headers :: "(string \<times> string) list"

definition action_json_redirect :: "nat \<Rightarrow> string \<Rightarrow> action_json" where
  "action_json_redirect st location =
     \<lparr>envelope = EnvRedirect st location, init_status = None, init_headers = []\<rparr>"

text \<open>\<open>error(405, 'POST method not allowed. No actions exist for this page')\<close>\<close>

definition no_actions_error :: thrown where
  "no_actions_error = HttpError 405 (AppError ''POST method not allowed. No actions exist for this page'')"

text \<open>The \<open>catch\<close> block of \<open>handle_action_json_request\<close>.\<close>

definition action_json_catch ::
  "request_event \<Rightarrow> (thrown \<Rightarrow> app_error option) \<Rightarrow> thrown \<Rightarrow> action_json" where
  "action_json_catch event handleError err =
     (case err of
        Redirect st location \<Rightarrow> action_json_redirect st location
      | _ \<Rightarrow>
          \<lparr>envelope = EnvError (handle_error_and_jsonify event handleError (check_incorrect_fail_use err)),
           init_status = Some (error_status err),
           init_headers = []\<rparr>)"

text \<open>
  \<open>handle_action_json_request(event, options, server)\<close>; the argument is
  \<open>server?.actions\<close>. \<open>check_named_default_separate\<close> runs outside the \<open>try\<close>, so
  its error leaves the function (\<open>Inl\<close>).
\<close>

definition handle_action_json_request ::
  "request_event \<Rightarrow> (thrown \<Rightarrow> app_error option) \<Rightarrow> (js_value \<Rightarrow> (string \<times> string) + string) \<Rightarrow>
     actions_object option \<Rightarrow> thrown + action_json" where
  "handle_action_json_request event handleError stringify server_actions =
     (case server_actions of
        None \<Rightarrow>
          Inr \<lparr>envelope = EnvError (handle_error_and_jsonify event handleError no_actions_error),
               init_status = Some (error_status no_actions_error),
               init_headers = [(''allow'', ''GET'')]\<rparr>
      | Some acts \<Rightarrow>
          (case check_named_default_separate acts of
             Some e \<Rightarrow> Inl e
           | None \<Rightarrow>
               Inr (case call_action event acts of
                  Returns (ActionFailure st d) \<Rightarrow>
                    (case stringify_action_response stringify d (route_id event) of
                       Inr s \<Rightarrow> \<lparr>envelope = EnvFailure st s, init_status = None, init_headers = []\<rparr>
                     | Inl e \<Rightarrow> action_json_catch event handleError e)
                | Returns (Value v) \<Rightarrow>
                    (case stringify_action_response stringify v (route_id event) of
                       Inr s \<Rightarrow> \<lparr>envelope = EnvSuccess (if truthy v then 200 else 204) s,
                                 init_status = None, init_headers = []\<rparr>
                     | Inl e \<Rightarrow> action_json_catch event handleError e)
                | Throws e \<Rightarrow> action_json_catch event handleError e)))"

text \<open>The names that every plain object inherits from \<open>Object.prototype\<close>.\<close>

definition object_prototype_names :: "string list" where
  "object_prototype_names =
     [''constructor'', ''__defineGetter__'', ''__defineSetter__'', ''hasOwnProperty'',
      ''__lookupGetter__'', ''__lookupSetter__'', ''isPrototypeOf'', ''propertyIsEnumerable'',
      ''toString'', ''valueOf'', ''__proto__'', ''toLocaleString'']"

text \<open>
  \<open>event.setHeaders(new_headers)\<close> as \<open>respond\<close> defines it, on the accumulated
  response headers: cookies and headers already set are refused. Header names are taken
  in lower case. The test \<open>lower in headers\<close> is made on a plain object, so it also
  holds of the names that the object inherits.
\<close>

fun setHeaders :: "(string \<times> string) list \<Rightarrow> (string \<times> string) list \<Rightarrow> thrown + (string \<times> string) list" where
  "setHeaders headers [] = Inr headers"
| "setHeaders headers ((key, v) # rest) =
     (if key = ''set-cookie''
      then Inl (Error ''Use `event.cookies.set(name, value, options)` instead of `event.setHeaders` to set cookies'')
      else if map_of headers key \<noteq> None \<or> key \<in> set object_prototype_names
      then Inl (Error ([CHR 0x22] @ key @ [CHR 0x22] @ '' header is already set''))
      else setHeaders (headers @ [(key, v)]) rest)"

text \<open>
  \<open>handle_action_request(event, server)\<close>, the page-action path. It returns the
  \<open>ActionResult\<close> and the response headers accumulated so far; an error thrown outside
  its \<open>try\<close> leaves the function (\<open>Inl\<close>).
\<close>

definition handle_action_request ::
  "request_event \<Rightarrow> (string \<times> string) list \<Rightarrow> actions_object option \<Rightarrow>
     thrown + (action_result \<times> (string \<times> string) list)" where
  "handle_action_request event headers server_actions =
     (case server_actions of
        None \<Rightarrow>
          (case setHeaders headers [(''allow'', ''GET'')] of
             Inl e \<Rightarrow> Inl e
           | Inr headers' \<Rightarrow> Inr (ARError no_actions_error, headers'))
      | Some acts \<Rightarrow>
          (case check_named_default_separate acts of
             Some e \<Rightarrow> Inl e
           | None \<Rightarrow>
               Inr (case call_action event acts of
                  Returns (ActionFailure st d) \<Rightarrow> ARFailure st d
                | Returns (Value v) \<Rightarrow> ARSuccess 200 v
                | Throws (Redirect st location) \<Rightarrow> ARRedirect st location
                | Throws e \<Rightarrow> ARError (check_incorrect_fail_use e), headers)))"

text \<open>Sample inputs: a form submission, with and without a named action.\<close>

definition form_event :: request_event where
  "form_event = \<lparr>request_method = ''POST'', accepts_json = False, form_content_type = True,
     content_type = Some ''application/x-www-form-urlencoded'', search_params = [],
     pathname = ''/form'', route_id = Some ''/form''\<rparr>"


text \<open>
  Sample \<open>actions\<close>: a plain object with the given own properties. Of what it
  inherits the sample has \<open>toString\<close> only: \<open>Object.prototype.toString\<close>, which
  called without a receiver returns \<open>[object Undefined]\<close>.
\<close>

definition inherits_toString :: "string \<Rightarrow> action_outcome option" where
  "inherits_toString nm =
     (if nm = ''toString'' then Some (Returns (Value (JString ''[object Undefined]''))) else None)"

definition sample_actions :: "(string \<times> action_outcome) list \<Rightarrow> actions_object" where
  "sample_actions own = \<lparr>own_actions = own, inherited_actions = inherits_toString\<rparr>"




section \<open>Page rendering\<close>

text \<open>
  A node of the manifest is identified by its index; \<open>manifest._.nodes[n]()\<close> is the
  parameter \<open>nodes_of\<close> below (the import of a node of the generated manifest is
  taken to succeed). Each half of a node carries the page options; only the server half
  has \<open>actions\<close>.
\<close>

datatype prerender_option = PrerenderTrue | PrerenderFalse | PrerenderAuto

record node_half =
  prerender :: "prerender_option option"
  ssr :: "bool option"
  csr :: "bool option"
  trailingSlash :: "TrailingSlash option"
  actions :: "actions_object option"

record ssr_node =
  universal :: "node_half option"
  server :: "node_half option"

text \<open>\<open>page: { layouts, errors, leaf }\<close> of a route.\<close>

record page_node_indexes =
  layouts :: "nat option list"
  errors :: "nat option list"
  leaf :: nat

record ssr_state =
  depth :: nat
  prerendering :: bool

text \<open>
  \<^verbatim>\<open>
  function get_option(nodes, option) {
    return nodes.reduce((value, node) =>
      node?.universal?.[option] ?? node?.server?.[option] ?? value, undefined);
  }
  \<close>
\<close>

definition get_option :: "ssr_node option list \<Rightarrow> (node_half \<Rightarrow> 'v option) \<Rightarrow> 'v option" where
  "get_option nodes opt =
     foldl (\<lambda>val node.
        case (case node of None \<Rightarrow> None
              | Some n \<Rightarrow> (case universal n of None \<Rightarrow> None | Some u \<Rightarrow> opt u)) of
          Some x \<Rightarrow> Some x
        | None \<Rightarrow>
            (case (case node of None \<Rightarrow> None
                   | Some n \<Rightarrow> (case server n of None \<Rightarrow> None | Some s \<Rightarrow> opt s)) of
               Some x \<Rightarrow> Some x
             | None \<Rightarrow> val))
       None nodes"

text \<open>\<open>node?.server?.actions\<close>\<close>

definition server_actions :: "ssr_node \<Rightarrow> actions_object option" where
  "server_actions n = (case server n of None \<Rightarrow> None | Some s \<Rightarrow> actions s)"

text \<open>
  The loads of one node, \<open>load_server_data\<close> followed by \<open>load_data\<close>, are
  represented by what awaiting the two promises gives: the server data and the
  universal data (each possibly \<open>null\<close>), or the error thrown.
\<close>

datatype load_outcome = Loaded "js_value option" "js_value option" | LoadThrew thrown

text \<open>A \<open>Loaded\<close> entry of the branch: \<open>{ node, server_data, data }\<close>.\<close>

record loaded =
  node :: nat
  server_data :: "js_value option"
  data :: "js_value option"

text \<open>The arguments of a call of \<open>render_response\<close> that vary between the calls.\<close>

record render_args =
  branch :: "loaded list"
  config_ssr :: bool
  config_csr :: bool
  status :: nat
  error :: "app_error option"
  action_result :: "action_result option"

datatype dependency = DependencyRedirect string | DependencyData string

text \<open>
  How \<open>render_page\<close> ends. \<open>RenderResponse args\<close> is \<open>return await
  render_response(args)\<close>, inside the outer \<open>try\<close>: should that call throw, the
  \<open>catch\<close> turns it into \<open>respond_with_error\<close> with status 500.
  \<open>StaticErrorPage\<close> is \<open>static_error_page(options, status, message)\<close> and
  \<open>RespondWithError\<close> is \<open>respond_with_error({ status, error })\<close>.
  \<open>PageDiverges\<close> is a loop that never ends.
\<close>

datatype page_outcome =
    TextResponse nat string
  | ActionJsonResponse action_json
  | RedirectResponse nat string
  | EmptyResponse nat
  | RenderResponse render_args
  | StaticErrorPage nat string
  | RespondWithError nat thrown
  | PageThrows thrown
  | PageDiverges

text \<open>
  The outcome together with the effects: the positions of the node list whose load
  tasks were started, the response headers set, the value assigned to
  \<open>state.prerender_default\<close> and the entries put into
  \<open>state.prerendering.dependencies\<close>.
\<close>

record page_result =
  outcome :: page_outcome
  loads_started :: "nat list"
  set_headers :: "(string \<times> string) list"
  prerender_default :: "bool option"
  dependencies :: "(string \<times> dependency) list"

definition MAX_DEPTH :: nat where
  "MAX_DEPTH = 10"

definition is_action_request :: "request_event \<Rightarrow> bool" where
  "is_action_request event = (request_method event = ''POST'')"

definition is_action_json_request :: "request_event \<Rightarrow> bool" where
  "is_action_json_request event = (accepts_json event \<and> request_method event = ''POST'')"

text \<open>\<open>arr[i]\<close>, which is \<open>undefined\<close> outside the array.\<close>

definition at_index :: "'a option list \<Rightarrow> nat \<Rightarrow> 'a option" where
  "at_index xs i = (if i < length xs then xs ! i else None)"

text \<open>\<open>arr.filter((val) => val != null)\<close>\<close>

definition compact :: "'a option list \<Rightarrow> 'a list" where
  "compact arr = List.map_filter id arr"

text \<open>
  The \<open>for\<close> loop of \<open>render_page\<close> that awaits the loads in order. It ends with
  the branch, or at the first position whose load threw, with the error and the
  branch built so far.
\<close>

fun await_loads ::
  "(nat \<Rightarrow> load_outcome) \<Rightarrow> nat option list \<Rightarrow> nat \<Rightarrow> loaded option list \<Rightarrow>
     (nat \<times> thrown \<times> loaded option list) + loaded option list" where
  "await_loads loads [] i br = Inr br"
| "await_loads loads (None # ns) i br = await_loads loads ns (Suc i) (br @ [None])"
| "await_loads loads (Some n # ns) i br =
     (case loads i of
        Loaded sd d \<Rightarrow>
          await_loads loads ns (Suc i) (br @ [Some \<lparr>node = n, server_data = sd, data = d\<rparr>])
      | LoadThrew e \<Rightarrow> Inl (i, e, br))"

text \<open>
  \<open>while (i--) { if (page.errors[i]) ... }\<close>: the nearest depth below \<open>i\<close> whose
  error-boundary index is truthy, with that index.
\<close>

fun find_error_boundary :: "nat option list \<Rightarrow> nat \<Rightarrow> (nat \<times> nat) option" where
  "find_error_boundary errs 0 = None"
| "find_error_boundary errs (Suc i) =
     (case at_index errs i of
        Some index \<Rightarrow> if index \<noteq> 0 then Some (i, index) else find_error_boundary errs i
      | None \<Rightarrow> find_error_boundary errs i)"

text \<open>
  \<open>let j = i; while (!branch[j]) j -= 1;\<close>. Below index 0 every \<open>branch[j]\<close> is
  \<open>undefined\<close> and the loop never ends: that is \<open>None\<close>.
\<close>

fun rewind :: "loaded option list \<Rightarrow> nat \<Rightarrow> nat option" where
  "rewind br 0 = (if at_index br 0 \<noteq> None then Some 0 else None)"
| "rewind br (Suc j) = (if at_index br (Suc j) \<noteq> None then Some (Suc j) else rewind br j)"

text \<open>The \<open>catch\<close> block inside the loop, for the error thrown at position \<open>i\<close>.\<close>

definition handle_load_error ::
  "request_event \<Rightarrow> page_node_indexes \<Rightarrow> (thrown \<Rightarrow> app_error option) \<Rightarrow> bool \<Rightarrow>
     nat \<Rightarrow> thrown \<Rightarrow> loaded option list \<Rightarrow> page_outcome \<times> (string \<times> dependency) list" where
  "handle_load_error event page handleError record_data i err br =
     (case err of
        Redirect st location \<Rightarrow>
          (RedirectResponse st location,
           if record_data then [(add_data_suffix (pathname event), DependencyRedirect location)]
           else [])
      | _ \<Rightarrow>
          (case find_error_boundary (errors page) i of
             Some (k, index) \<Rightarrow>
               (case rewind br k of
                  None \<Rightarrow> PageDiverges
                | Some j \<Rightarrow>
                    RenderResponse
                      \<lparr>branch = compact (take (Suc j) br) @
                                  [\<lparr>node = index, server_data = None, data = None\<rparr>],
                       config_ssr = True, config_csr = True,
                       status = error_status err,
                       error = Some (handle_error_and_jsonify event handleError err),
                       action_result = None\<rparr>)
           | None \<Rightarrow>
               StaticErrorPage (error_status err)
                 (message (handle_error_and_jsonify event handleError err)),
           []))"

text \<open>The nodes of the page: the layouts (with their gaps), then the leaf.\<close>

definition page_nodes :: "page_node_indexes \<Rightarrow> nat option list" where
  "page_nodes page = layouts page @ [Some (leaf page)]"

text \<open>\<open>get_option(nodes, 'prerender') ?? false\<close>, read as a condition.\<close>

definition should_prerender :: "ssr_node option list \<Rightarrow> bool" where
  "should_prerender nodes =
     (case get_option nodes prerender of None \<Rightarrow> False | Some p \<Rightarrow> p \<noteq> PrerenderFalse)"

text \<open>\<open>nodes.some((node) => node?.server)\<close>\<close>

definition should_prerender_data :: "ssr_node option list \<Rightarrow> bool" where
  "should_prerender_data nodes =
     list_ex (\<lambda>nd. case nd of None \<Rightarrow> False | Some n \<Rightarrow> server n \<noteq> None) nodes"

text \<open>
  What awaiting the loads of position \<open>i\<close> of the node list gives: after an action
  that ended in an error, the task of the leaf node throws that error instead of loading.
  \<^verbatim>\<open>
  if (node === leaf_node && action_result?.type === 'error') throw action_result.error;
  return await load_server_data({ ... });
  \<close>
\<close>

definition effective_loads ::
  "page_node_indexes \<Rightarrow> action_result option \<Rightarrow> (nat \<Rightarrow> load_outcome) \<Rightarrow> nat \<Rightarrow> load_outcome" where
  "effective_loads page ar loads =
     (\<lambda>i. case ar of
            Some (ARError e) \<Rightarrow>
              if page_nodes page ! i = Some (leaf page) then LoadThrew e else loads i
          | _ \<Rightarrow> loads i)"

text \<open>
  The body of the \<open>try\<close> of \<open>render_page\<close> from the prerender checks on, given the
  status and the action result. \<open>loads\<close> gives what the load at each position of the
  node list does; the leaf throws the action's error instead, when there is one.
  \<open>get_data_json\<close> stands for the serialised data of the branch with all its chunks.
\<close>

definition render_branch ::
  "request_event \<Rightarrow> page_node_indexes \<Rightarrow> (thrown \<Rightarrow> app_error option) \<Rightarrow>
     (loaded option list \<Rightarrow> thrown + string) \<Rightarrow> (nat \<Rightarrow> ssr_node) \<Rightarrow> ssr_state \<Rightarrow>
     (nat \<Rightarrow> load_outcome) \<Rightarrow> nat \<Rightarrow> action_result option \<Rightarrow> (string \<times> string) list \<Rightarrow>
     page_result" where
  "render_branch event page handleError get_data_json nodes_of state loads st ar hdrs =
     (let ixs = page_nodes page;
          nodes = map (map_option nodes_of) ixs;
          sp = should_prerender nodes;
          csr_opt = (case get_option nodes csr of None \<Rightarrow> True | Some c \<Rightarrow> c);
          record_data = (prerendering state \<and> should_prerender_data nodes);
          loads' = effective_loads page ar loads
      in
        if sp \<and> server_actions (nodes_of (leaf page)) \<noteq> None then
          \<lparr>outcome = RespondWithError 500 (Error ''Cannot prerender pages with actions''),
           loads_started = [], set_headers = hdrs, prerender_default = None, dependencies = []\<rparr>
        else if \<not> sp \<and> prerendering state then
          \<lparr>outcome = EmptyResponse 204,
           loads_started = [], set_headers = hdrs, prerender_default = None, dependencies = []\<rparr>
        else if get_option nodes ssr = Some False then
          \<lparr>outcome = RenderResponse
              \<lparr>branch = [], config_ssr = False, config_csr = csr_opt, status = st,
               error = None, action_result = None\<rparr>,
           loads_started = [], set_headers = hdrs, prerender_default = Some sp, dependencies = []\<rparr>
        else
          (case await_loads loads' ixs 0 [] of
             Inl (i, err, br) \<Rightarrow>
               (case handle_load_error event page handleError record_data i err br of
                  (out, deps) \<Rightarrow>
                    \<lparr>outcome = out, loads_started = [0..<length ixs], set_headers = hdrs,
                     prerender_default = Some sp, dependencies = deps\<rparr>)
           | Inr br \<Rightarrow>
               (case (if record_data then get_data_json br else Inr []) of
                  Inl e \<Rightarrow>
                    \<lparr>outcome = RespondWithError 500 e, loads_started = [0..<length ixs],
                     set_headers = hdrs, prerender_default = Some sp, dependencies = []\<rparr>
                | Inr json \<Rightarrow>
                    \<lparr>outcome = RenderResponse
                        \<lparr>branch = compact br, config_ssr = True, config_csr = csr_opt,
                         status = st, error = None, action_result = ar\<rparr>,
                     loads_started = [0..<length ixs], set_headers = hdrs,
                     prerender_default = Some sp,
                     dependencies =
                       (if record_data then [(add_data_suffix (pathname event), DependencyData json)]
                        else [])\<rparr>)))"

text \<open>
  \<open>render_page(event, page, options, manifest, state, resolve_opts)\<close>. \<open>hdrs\<close> are
  the response headers set so far through \<open>event.setHeaders\<close>.
\<close>

definition render_page ::
  "request_event \<Rightarrow> page_node_indexes \<Rightarrow> (thrown \<Rightarrow> app_error option) \<Rightarrow>
     (js_value \<Rightarrow> (string \<times> string) + string) \<Rightarrow> (loaded option list \<Rightarrow> thrown + string) \<Rightarrow>
     (nat \<Rightarrow> ssr_node) \<Rightarrow> ssr_state \<Rightarrow> (string \<times> string) list \<Rightarrow> (nat \<Rightarrow> load_outcome) \<Rightarrow>
     page_result" where
  "render_page event page handleError stringify get_data_json nodes_of state hdrs loads =
     (if depth state > MAX_DEPTH then
        \<lparr>outcome = TextResponse 404 (''Not found: '' @ pathname event),
         loads_started = [], set_headers = hdrs, prerender_default = None, dependencies = []\<rparr>
      else if is_action_json_request event then
        \<lparr>outcome =
           (case handle_action_json_request event handleError stringify
                   (server_actions (nodes_of (leaf page))) of
              Inl e \<Rightarrow> PageThrows e
            | Inr response \<Rightarrow> ActionJsonResponse response),
         loads_started = [], set_headers = hdrs, prerender_default = None, dependencies = []\<rparr>
      else if is_action_request event then
        (case handle_action_request event hdrs (server_actions (nodes_of (leaf page))) of
           Inl e \<Rightarrow>
             \<lparr>outcome = RespondWithError 500 e,
              loads_started = [], set_headers = hdrs, prerender_default = None, dependencies = []\<rparr>
         | Inr (ARRedirect st location, hdrs') \<Rightarrow>
             \<lparr>outcome = RedirectResponse st location,
              loads_started = [], set_headers = hdrs', prerender_default = None, dependencies = []\<rparr>
         | Inr (ARError e, hdrs') \<Rightarrow>
             render_branch event page handleError get_data_json nodes_of state loads
               (error_status e) (Some (ARError e)) hdrs'
         | Inr (ARFailure st d, hdrs') \<Rightarrow>
             render_branch event page handleError get_data_json nodes_of state loads
               st (Some (ARFailure st d)) hdrs'
         | Inr (ARSuccess st d, hdrs') \<Rightarrow>
             render_branch event page handleError get_data_json nodes_of state loads
               200 (Some (ARSuccess st d)) hdrs')
      else
        render_branch event page handleError get_data_json nodes_of state loads 200 None hdrs)"

text \<open>
  The action step of \<open>render_page\<close> on its own: the \<open>action_result\<close> it leaves
  (\<open>None\<close> when the request is not an action request) and the response headers after
  it, or the error thrown outside the handler's \<open>try\<close>.
\<close>

definition page_action ::
  "request_event \<Rightarrow> (string \<times> string) list \<Rightarrow> actions_object option \<Rightarrow>
     thrown + (action_result option \<times> (string \<times> string) list)" where
  "page_action event hdrs acts =
     (if is_action_request event then
        (case handle_action_request event hdrs acts of
           Inl e \<Rightarrow> Inl e
         | Inr (r, hdrs') \<Rightarrow> Inr (Some r, hdrs'))
      else Inr (None, hdrs))"

fun is_redirect_result :: "action_result option \<Rightarrow> bool" where
  "is_redirect_result (Some (ARRedirect st location)) = True"
| "is_redirect_result _ = False"

text \<open>
  The dispatch of the \<open>fetch\<close> that \<open>create_fetch\<close> builds for a request event:
  another origin goes to the network, a static asset is read (or fetched when the host
  cannot read files), and every other same-origin request is answered in process by
  \<^verbatim>\<open>respond(request, options, manifest, { ...state, depth: state.depth + 1 })\<close>.
\<close>

datatype fetch_dispatch = NetworkFetch | AssetRead | RespondInProcess ssr_state

definition create_fetch :: "ssr_state \<Rightarrow> bool \<Rightarrow> bool \<Rightarrow> bool \<Rightarrow> fetch_dispatch" where
  "create_fetch state same_origin is_asset can_read =
     (if \<not> same_origin then NetworkFetch
      else if is_asset then (if can_read then AssetRead else NetworkFetch)
      else RespondInProcess (state\<lparr>depth := depth state + 1\<rparr>))"

text \<open>
  Proof vocabulary for the load loop: the branch entry that position \<open>k\<close> of the
  node list contributes when its load succeeds.
\<close>

fun entry :: "nat option \<Rightarrow> load_outcome \<Rightarrow> loaded option" where
  "entry None out = None"
| "entry (Some a) (Loaded sd d) = Some \<lparr>node = a, server_data = sd, data = d\<rparr>"
| "entry (Some a) (LoadThrew e) = None"

definition entry_at :: "(nat \<Rightarrow> load_outcome) \<Rightarrow> nat option list \<Rightarrow> nat \<Rightarrow> nat \<Rightarrow> loaded option" where
  "entry_at loads ns off k = entry (ns ! k) (loads (off + k))"

text \<open>
  Sample inputs: a page under a root layout (node 0, error boundary node 1) and a
  nested layout (node 2, no error boundary), with leaf node 3; a plain \<open>GET\<close>.
\<close>

definition plain_node :: ssr_node where
  "plain_node = \<lparr>universal = None,
     server = Some \<lparr>prerender = None, ssr = None, csr = None, trailingSlash = None,
       actions = None\<rparr>\<rparr>"

definition action_node :: ssr_node where
  "action_node = \<lparr>universal = None,
     server = Some \<lparr>prerender = None, ssr = None, csr = None, trailingSlash = None,
       actions = Some (sample_actions [(''default'', Returns (Value JUndefined))])\<rparr>\<rparr>"

definition nodes_with_action :: "nat \<Rightarrow> ssr_node" where
  "nodes_with_action n = (if n = 3 then action_node else plain_node)"

definition nested_page :: page_node_indexes where
  "nested_page = \<lparr>layouts = [Some 0, Some 2], errors = [Some 1, None], leaf = 3\<rparr>"

definition get_event :: request_event where
  "get_event = \<lparr>request_method = ''GET'', accepts_json = False, form_content_type = False,
     content_type = None, search_params = [], pathname = ''/a/b'', route_id = Some ''/a/b''\<rparr>"

definition nested_layout_fails :: "nat \<Rightarrow> load_outcome" where
  "nested_layout_fails i =
     (if i = 1 then LoadThrew (Error ''boom'') else Loaded (Some (JObject [])) None)"

definition root_layout_fails :: "nat \<Rightarrow> load_outcome" where
  "root_layout_fails i =
     (if i = 0 then LoadThrew (Error ''boom'') else Loaded (Some (JObject [])) None)"

section \<open>Route matcher\<close>



text \<open>\<open>arr.join(sep)\<close>\<close>

fun join :: "string list \<Rightarrow> string \<Rightarrow> string" where
  "join [] sep = []"
| "join [x] sep = x"
| "join (x # y # ys) sep = x @ sep @ join (y # ys) sep"


record route_param =
  name :: string
  matcher :: "string option"
  optional :: bool
  rest :: bool
  chained :: bool
















section \<open>Cookie jar\<close>

text \<open>
  The options of a cookie that the jar itself reads (the flags that only
  \<open>serialize\<close> looks at are left out), and a cookie registered by \<open>cookies.set\<close>:
  \<open>{ name, value, options }\<close>.
\<close>

record cookie_options =
  domain :: "string option"
  path :: "string option"
  encode :: "(string \<Rightarrow> string) option"

record cookie =
  cookie_name :: string
  cookie_value :: string
  options :: cookie_options

















section \<open>CSP builder\<close>

text \<open>
  A directive of the configuration holds a list of sources or a boolean;
  \<open>CspDirectives\<close> is an object from directive names to such values, a name being
  possibly present with the value \<open>undefined\<close> (\<open>None\<close>).
\<close>

datatype directive_value = Sources "string list" | Flag bool

type_synonym csp_directives = "(string \<times> directive_value option) list"

text \<open>\<open>!!v\<close>: a list is truthy, also an empty one.\<close>

fun directive_truthy :: "directive_value option \<Rightarrow> bool" where
  "directive_truthy None = False"
| "directive_truthy (Some (Sources xs)) = True"
| "directive_truthy (Some (Flag b)) = b"

text \<open>\<open>directives[key]\<close>\<close>

definition directive :: "csp_directives \<Rightarrow> string \<Rightarrow> directive_value option" where
  "directive d key = (case map_of d key of None \<Rightarrow> None | Some v \<Rightarrow> v)"

text \<open>
  \<open>d['script-src'] || d['default-src']\<close>, for the source directives, whose values
  are lists by their type: the first of the two that is set.
\<close>

definition effective_src :: "csp_directives \<Rightarrow> string \<Rightarrow> string list option" where
  "effective_src d key =
     (case directive d key of
        Some (Sources xs) \<Rightarrow> Some xs
      | _ \<Rightarrow> (case directive d ''default-src'' of Some (Sources ys) \<Rightarrow> Some ys | _ \<Rightarrow> None))"

text \<open>
  \<open>!!effective && effective.filter((value) => value !== 'unsafe-inline').length > 0\<close>
\<close>

definition needs_csp :: "string list option \<Rightarrow> bool" where
  "needs_csp effective =
     (case effective of
        None \<Rightarrow> False
      | Some xs \<Rightarrow> length (filter (\<lambda>v. v \<noteq> ''unsafe-inline'') xs) > 0)"

record base_provider =
  use_hashes :: bool
  script_needs_csp :: bool
  style_needs_csp :: bool
  directives :: csp_directives
  script_src :: "string list"
  style_src :: "string list"
  nonce :: string
  script_needs_nonce :: bool
  style_needs_nonce :: bool

text \<open>The constructor of \<open>BaseProvider\<close>.\<close>

definition BaseProvider :: "bool \<Rightarrow> csp_directives \<Rightarrow> string \<Rightarrow> base_provider" where
  "BaseProvider hashes d n =
     \<lparr>use_hashes = hashes,
      script_needs_csp = needs_csp (effective_src d ''script-src''),
      style_needs_csp = needs_csp (effective_src d ''style-src''),
      directives = d,
      script_src = [],
      style_src = [],
      nonce = n,
      script_needs_nonce = (needs_csp (effective_src d ''script-src'') \<and> \<not> hashes),
      style_needs_nonce = (needs_csp (effective_src d ''style-src'') \<and> \<not> hashes)\<rparr>"

text \<open>
  \<^verbatim>\<open>
  add_script(content) {
    if (this.#script_needs_csp) {
      if (this.#use_hashes) this.#script_src.push(`sha256-${sha256(content)}`);
      else if (this.#script_src.length === 0) this.#script_src.push(`nonce-${this.#nonce}`);
    }
  }
  \<close>
  The digest function \<open>sha256\<close> is a parameter.
\<close>

definition add_script :: "(string \<Rightarrow> string) \<Rightarrow> string \<Rightarrow> base_provider \<Rightarrow> base_provider" where
  "add_script sha256 content p =
     (if script_needs_csp p then
        (if use_hashes p then p\<lparr>script_src := script_src p @ [''sha256-'' @ sha256 content]\<rparr>
         else if length (script_src p) = 0 then p\<lparr>script_src := script_src p @ [''nonce-'' @ nonce p]\<rparr>
         else p)
      else p)"

definition add_style :: "(string \<Rightarrow> string) \<Rightarrow> string \<Rightarrow> base_provider \<Rightarrow> base_provider" where
  "add_style sha256 content p =
     (if style_needs_csp p then
        (if use_hashes p then p\<lparr>style_src := style_src p @ [''sha256-'' @ sha256 content]\<rparr>
         else if length (style_src p) = 0 then p\<lparr>style_src := style_src p @ [''nonce-'' @ nonce p]\<rparr>
         else p)
      else p)"

text \<open>
  The first part of \<open>get_header\<close>: the copy of the directives with the collected
  sources appended to \<open>style-src\<close> and \<open>script-src\<close>.
  \<^verbatim>\<open>
  const directives = { ...this.#directives };
  if (this.#style_src.length > 0) {
    directives['style-src'] = [
      ...(directives['style-src'] || directives['default-src'] || []), ...this.#style_src ];
  }
  if (this.#script_src.length > 0) { ... 'script-src' ... }
  \<close>
\<close>

definition with_src :: "csp_directives \<Rightarrow> string \<Rightarrow> string list \<Rightarrow> csp_directives" where
  "with_src d key src =
     (if length src > 0
      then AList.update key
             (Some (Sources ((case effective_src d key of None \<Rightarrow> [] | Some xs \<Rightarrow> xs) @ src))) d
      else d)"

definition header_directives :: "base_provider \<Rightarrow> csp_directives" where
  "header_directives p =
     with_src (with_src (directives p) ''style-src'' (style_src p)) ''script-src'' (script_src p)"

definition quoted :: "string list" where
  "quoted = [''self'', ''unsafe-eval'', ''unsafe-hashes'', ''unsafe-inline'', ''none'',
     ''strict-dynamic'', ''report-sample'', ''wasm-unsafe-eval'', ''script'']"

definition is_digit :: "char \<Rightarrow> bool" where
  "is_digit c = (c \<in> set ''0123456789'')"

text \<open>\<open>crypto_pattern = /^(nonce|sha\d\d\d)-/\<close>\<close>

definition crypto_pattern :: "string \<Rightarrow> bool" where
  "crypto_pattern v =
     (startsWith v ''nonce-'' \<or>
      (length v \<ge> 7 \<and> take 3 v = ''sha'' \<and> is_digit (v ! 3) \<and> is_digit (v ! 4) \<and>
       is_digit (v ! 5) \<and> v ! 6 = CHR ''-''))"

definition quote_source :: "string \<Rightarrow> string" where
  "quote_source v =
     (if v \<in> set quoted \<or> crypto_pattern v then [CHR 0x27] @ v @ [CHR 0x27] else v)"

text \<open>The loop of \<open>get_header\<close> over the directives, and the header.\<close>

fun header_parts :: "bool \<Rightarrow> csp_directives \<Rightarrow> string list" where
  "header_parts is_meta [] = []"
| "header_parts is_meta ((key, v) # ds) =
     (if is_meta \<and> (key = ''frame-ancestors'' \<or> key = ''report-uri'' \<or> key = ''sandbox'')
      then header_parts is_meta ds
      else if \<not> directive_truthy v then header_parts is_meta ds
      else (case v of
              Some (Sources xs) \<Rightarrow> join (key # map quote_source xs) '' ''
            | _ \<Rightarrow> key) # header_parts is_meta ds)"

definition get_header :: "base_provider \<Rightarrow> bool \<Rightarrow> string" where
  "get_header p is_meta = join (header_parts is_meta (header_directives p)) ''; ''"

text \<open>
  \<open>directives['report-to']?.length ?? 0 > 0\<close>. The comparison binds tighter than
  \<open>??\<close>, so this is the length of the list when there is one, and \<open>0 > 0\<close>, that is
  \<open>false\<close>, otherwise.
\<close>

definition has_report :: "directive_value option \<Rightarrow> js_value" where
  "has_report v =
     (case v of
        Some (Sources xs) \<Rightarrow> JNumber (int (length xs))
      | _ \<Rightarrow> JBool ((0::int) > 0))"

definition report_only_message :: string where
  "report_only_message =
     ''`content-security-policy-report-only` must be specified with either the `report-to` or `report-uri` directives, or both''"

text \<open>
  The constructor of \<open>CspReportOnlyProvider\<close>:
  \<^verbatim>\<open>
  super(use_hashes, directives, nonce);
  if (Object.values(directives).filter((v) => !!v).length > 0) {
    const has_report_to = directives['report-to']?.length ?? 0 > 0;
    const has_report_uri = directives['report-uri']?.length ?? 0 > 0;
    if (!has_report_to && !has_report_uri) throw Error(...);
  }
  \<close>
\<close>

definition CspReportOnlyProvider :: "bool \<Rightarrow> csp_directives \<Rightarrow> string \<Rightarrow> thrown + base_provider" where
  "CspReportOnlyProvider hashes d n =
     (let p = BaseProvider hashes d n in
      if length (filter directive_truthy (map snd d)) > 0 then
        (let has_report_to = has_report (directive d ''report-to'');
             has_report_uri = has_report (directive d ''report-uri'')
         in if \<not> truthy has_report_to \<and> \<not> truthy has_report_uri
            then Inl (Error report_only_message)
            else Inr p)
      else Inr p)"

text \<open>
  The conditions of the specification on a report-only configuration: some directive is
  set (to a list, or to \<open>true\<close>), and a reporting directive holds at least one entry.
\<close>

definition some_directive_set :: "csp_directives \<Rightarrow> bool" where
  "some_directive_set d = list_ex (\<lambda>(key, v). v \<noteq> None \<and> v \<noteq> Some (Flag False)) d"

definition has_entries :: "csp_directives \<Rightarrow> string \<Rightarrow> bool" where
  "has_entries d key = (case directive d key of Some (Sources (x # xs)) \<Rightarrow> True | _ \<Rightarrow> False)"

text \<open>Sample configurations.\<close>

definition self_only :: csp_directives where
  "self_only = [(''script-src'', Some (Sources [''self'']))]"

definition empty_report_uri :: csp_directives where
  "empty_report_uri = [(''report-uri'', Some (Sources []))]"

definition reporting :: csp_directives where
  "reporting = [(''script-src'', Some (Sources [''self''])), (''child-src'', None),
     (''report-uri'', Some (Sources [''/csp-report'']))]"

text \<open>A stand-in for the digest in sample runs.\<close>

definition sample_digest :: "string \<Rightarrow> string" where
  "sample_digest content = rev content"

section \<open>Responses and the conditional request\<close>

text \<open>
  A \<open>Response\<close>: its status, its headers (lower-case names, in the order they were
  first set; \<open>get\<close> is a lookup) and its body, \<open>None\<close> when there is none.
\<close>

record response =
  resp_status :: nat
  resp_headers :: "(string \<times> string) list"
  resp_body :: "string option"

text \<open>\<open>n.toString()\<close> for a length.\<close>

fun string_of_nat :: "nat \<Rightarrow> string" where
  "string_of_nat n =
     (if n < 10 then [char_of (48 + n)]
      else string_of_nat (n div 10) @ [char_of (48 + n mod 10)])"

declare string_of_nat.simps [simp del]

text \<open>
  \<open>text(body, init)\<close>: the length of the body is added as \<open>content-length\<close> when
  \<open>init.headers\<close> has none.
\<close>

definition text_response :: "string \<Rightarrow> nat \<Rightarrow> (string \<times> string) list \<Rightarrow> response" where
  "text_response body st hdrs =
     \<lparr>resp_status = st,
      resp_headers =
        (if map_of hdrs ''content-length'' = None
         then AList.update ''content-length'' (string_of_nat (length body)) hdrs else hdrs),
      resp_body = Some body\<rparr>"

text \<open>
  The end of \<open>render_response\<close> for a body that is not streamed:
  \<^verbatim>\<open>
  headers.set('etag', `"${hash(transformed)}"`);
  return text(transformed, { status, headers });
  \<close>
  The content hash is a parameter.
\<close>

definition quote_etag :: "string \<Rightarrow> string" where
  "quote_etag h = [CHR 0x22] @ h @ [CHR 0x22]"

definition buffered_page_response ::
  "(string \<Rightarrow> string) \<Rightarrow> nat \<Rightarrow> (string \<times> string) list \<Rightarrow> string \<Rightarrow> response" where
  "buffered_page_response hash st hdrs transformed =
     text_response transformed st (AList.update ''etag'' (quote_etag (hash transformed)) hdrs)"

definition conditional_headers :: "string list" where
  "conditional_headers =
     [''cache-control'', ''content-location'', ''date'', ''expires'', ''vary'', ''set-cookie'']"

text \<open>
  \<^verbatim>\<open>
  for (const key of [...]) {
    const value = response.headers.get(key);
    if (value) headers.set(key, value);
  }
  \<close>
\<close>

fun copy_headers ::
  "string list \<Rightarrow> (string \<times> string) list \<Rightarrow> (string \<times> string) list \<Rightarrow> (string \<times> string) list" where
  "copy_headers [] source hdrs = hdrs"
| "copy_headers (key # keys) source hdrs =
     copy_headers keys source
       (case map_of source key of
          None \<Rightarrow> hdrs
        | Some v \<Rightarrow> if v \<noteq> [] then AList.update key v hdrs else hdrs)"

text \<open>
  \<open>if (if_none_match_value?.startsWith('W/"')) if_none_match_value =
  if_none_match_value.substring(2);\<close>
\<close>

definition strip_weak :: "string option \<Rightarrow> string option" where
  "strip_weak if_none_match =
     (case if_none_match of
        None \<Rightarrow> None
      | Some v \<Rightarrow> if startsWith v (''W/'' @ [CHR 0x22]) then Some (drop 2 v) else Some v)"

text \<open>
  What \<open>respond\<close> returns once the \<open>handle\<close> hook has given \<open>response\<close>: the
  response itself, or the JSON form of a redirect on a data request.
\<close>

datatype respond_result = Returned response | RedirectJson nat string

text \<open>
  The end of the \<open>try\<close> block of \<open>respond\<close>, after the \<open>handle\<close> hook:
  \<^verbatim>\<open>
  if (response.status === 200 && response.headers.has('etag')) {
    let if_none_match_value = request.headers.get('if-none-match');
    ... strip W/ ...
    const etag = response.headers.get('etag');
    if (if_none_match_value === etag) {
      const headers = new Headers({ etag });
      ... copy ...
      return new Response(undefined, { status: 304, headers });
    }
  }
  if (is_data_request && response.status >= 300 && response.status <= 308) {
    const location = response.headers.get('location');
    if (location) return redirect_json_response(new Redirect(response.status, location));
  }
  return response;
  \<close>
\<close>

definition respond_etag :: "bool \<Rightarrow> string option \<Rightarrow> response \<Rightarrow> respond_result" where
  "respond_etag is_data_request if_none_match rsp =
     (if resp_status rsp = 200 \<and> map_of (resp_headers rsp) ''etag'' \<noteq> None \<and>
         strip_weak if_none_match = map_of (resp_headers rsp) ''etag''
      then
        (case map_of (resp_headers rsp) ''etag'' of
           Some etag \<Rightarrow>
             Returned \<lparr>resp_status = 304,
                       resp_headers = copy_headers conditional_headers (resp_headers rsp)
                                        [(''etag'', etag)],
                       resp_body = None\<rparr>
         | None \<Rightarrow> Returned rsp)
      else if is_data_request \<and> resp_status rsp \<ge> 300 \<and> resp_status rsp \<le> 308 then
        (case map_of (resp_headers rsp) ''location'' of
           None \<Rightarrow> Returned rsp
         | Some location \<Rightarrow>
             if location \<noteq> [] then RedirectJson (resp_status rsp) location else Returned rsp)
      else Returned rsp)"

text \<open>Sample inputs: a page and an error page, both buffered, with a stand-in hash.\<close>

definition sample_page :: response where
  "sample_page = buffered_page_response (\<lambda>body. ''1x2y3z'') 200
     [(''content-type'', ''text/html''), (''cache-control'', ''max-age=60''),
      (''link'', ''</app.js>; rel=modulepreload'')] ''<h1>Hi</h1>''"

definition sample_error_page :: response where
  "sample_error_page = buffered_page_response (\<lambda>body. ''1x2y3z'') 404
     [(''content-type'', ''text/html'')] ''<h1>Not found</h1>''"

section \<open>Facts about the string helpers\<close>

lemma endsWith_append: "endsWith (s @ t) t"
  by (simp add: endsWith_def)

lemma endsWith_split: "endsWith s t \<Longrightarrow> slice_end s (length t) @ t = s"
  unfolding endsWith_def slice_end_def
  by (metis append_take_drop_id)

lemma slice_end_append: "slice_end (s @ t) (length t) = s"
  by (simp add: slice_end_def)

lemma endsWith_slash_iff: "endsWith s ''/'' \<longleftrightarrow> (s \<noteq> [] \<and> last s = CHR ''/'')"
proof (cases s rule: rev_cases)
  case Nil
  then show ?thesis by (simp add: endsWith_def)
next
  case (snoc ys y)
  then show ?thesis by (simp add: endsWith_def)
qed

lemma slice_end_1: "slice_end s 1 = butlast s"
  by (simp add: slice_end_def butlast_conv_take)

lemma slice_end_Suc0 [simp]: "slice_end s (Suc 0) = butlast s"
  using slice_end_1 by simp

lemma endsWith_two_slashes:
  "endsWith p ''//'' \<longleftrightarrow> endsWith p ''/'' \<and> endsWith (butlast p) ''/''"
proof (cases p rule: rev_cases)
  case Nil
  then show ?thesis by (simp add: endsWith_def)
next
  case (snoc ys y)
  show ?thesis
  proof (cases ys rule: rev_cases)
    case Nil
    with snoc show ?thesis by (simp add: endsWith_def)
  next
    case (snoc zs z)
    with \<open>p = ys @ [y]\<close> show ?thesis
      by (auto simp add: endsWith_def butlast_append)
  qed
qed

lemma butlast_is_root: "endsWith p ''/'' \<Longrightarrow> butlast p = ''/'' \<longleftrightarrow> p = ''//''"
  by (cases p rule: rev_cases) (auto simp: endsWith_def)

lemma butlast_differs: "endsWith p ''/'' \<Longrightarrow> butlast p \<noteq> p"
  by (cases p rule: rev_cases) (auto simp: endsWith_def)

lemma no_slash_after_removal:
  assumes "q = (if endsWith q ''/'' then slice_end q 1 else q)"
  shows "\<not> endsWith q ''/''"
proof
  assume e: "endsWith q ''/''"
  with assms have "q = slice_end q 1" by simp
  then have "q = butlast q" by (simp only: slice_end_1)
  with butlast_differs [OF e] show False by simp
qed

section \<open>Path utilities: normalisation and the data suffix\<close>

lemma add_strip_data_suffix:
  "add_data_suffix (strip_data_suffix p) = p \<longleftrightarrow>
     has_data_suffix p \<and> \<not> endsWith (strip_data_suffix p) ''/''"
proof
  assume eq: "add_data_suffix (strip_data_suffix p) = p"
  define q where "q = strip_data_suffix p"
  define r where "r = (if endsWith q ''/'' then slice_end q 1 else q)"
  have p: "p = r @ DATA_SUFFIX"
    using eq [symmetric] unfolding add_data_suffix_def r_def q_def .
  have hs: "has_data_suffix p"
    unfolding has_data_suffix_def p by (rule endsWith_append)
  have "q = slice_end (r @ DATA_SUFFIX) (length DATA_SUFFIX)"
    unfolding q_def strip_data_suffix_def p ..
  then have "q = r" by (simp only: slice_end_append)
  then have "\<not> endsWith q ''/''" unfolding r_def by (rule no_slash_after_removal)
  with hs show "has_data_suffix p \<and> \<not> endsWith (strip_data_suffix p) ''/''"
    by (simp add: q_def)
next
  assume "has_data_suffix p \<and> \<not> endsWith (strip_data_suffix p) ''/''"
  then show "add_data_suffix (strip_data_suffix p) = p"
    by (simp add: add_data_suffix_def strip_data_suffix_def has_data_suffix_def endsWith_split)
qed

text \<open>
  Claim C3, as stated: for every pathname \<open>p\<close> other than \<open>/\<close>,
  \<open>normalize_path(add_data_suffix(strip_data_suffix(p)), 'ignore')\<close> is \<open>p\<close>.
  It fails at \<open>/foo\<close>: \<open>strip_data_suffix\<close> cuts twelve code units off a
  four-unit string, leaving the empty string, and \<open>add_data_suffix\<close> then gives
  \<open>/__data.json\<close>.
\<close>

theorem data_suffix_roundtrip_counterexample:
  "''/foo'' \<noteq> ''/'' \<and>
   normalize_path (add_data_suffix (strip_data_suffix ''/foo'')) Ignore = ''/__data.json'' \<and>
   normalize_path (add_data_suffix (strip_data_suffix ''/foo'')) Ignore \<noteq> ''/foo''"
  by (simp add: normalize_path_def add_data_suffix_def strip_data_suffix_def slice_end_def
      endsWith_def DATA_SUFFIX_def)

text \<open>
  Claim C3, amended: \<open>normalize_path(add_data_suffix(strip_data_suffix(p)), 'ignore')\<close>
  is \<open>p\<close> exactly when \<open>p\<close> ends with the data suffix \<open>/__data.json\<close> and the
  part before the suffix does not end with a slash.
\<close>

theorem data_suffix_roundtrip_amended:
  "normalize_path (add_data_suffix (strip_data_suffix p)) Ignore = p \<longleftrightarrow>
     has_data_suffix p \<and> \<not> endsWith (strip_data_suffix p) ''/''"
  by (simp add: normalize_path_def add_strip_data_suffix)

theorem data_suffix_roundtrip_amended_witness:
  "has_data_suffix ''/blog/42/__data.json'' \<and>
   \<not> endsWith (strip_data_suffix ''/blog/42/__data.json'') ''/'' \<and>
   normalize_path (add_data_suffix (strip_data_suffix ''/blog/42/__data.json'')) Ignore
     = ''/blog/42/__data.json''"
  using data_suffix_roundtrip_amended [of "''/blog/42/__data.json''"]
  by (simp add: has_data_suffix_def strip_data_suffix_def slice_end_def endsWith_def
      DATA_SUFFIX_def)

text \<open>
  Claim C10, as stated: \<open>normalize_path\<close> is idempotent for every path and every
  trailing-slash policy. It fails under \<open>'never'\<close> at \<open>/a//\<close>: each call removes
  one slash only, so the first call gives \<open>/a/\<close> and the second \<open>/a\<close>.
\<close>

theorem normalize_path_idempotent_counterexample:
  "normalize_path ''/a//'' Never = ''/a/'' \<and>
   normalize_path (normalize_path ''/a//'' Never) Never = ''/a'' \<and>
   normalize_path (normalize_path ''/a//'' Never) Never \<noteq> normalize_path ''/a//'' Never"
  by (simp add: normalize_path_def slice_end_def endsWith_def)

text \<open>
  Claim C10, amended: \<open>normalize_path(normalize_path(p, t), t)\<close> equals
  \<open>normalize_path(p, t)\<close> for every path under \<open>'always'\<close> and \<open>'ignore'\<close>, and
  under \<open>'never'\<close> exactly for the paths that do not end in two slashes (and for
  \<open>//\<close> itself); the root path \<open>/\<close> is returned unchanged under every policy.
\<close>

theorem normalize_path_idempotent_amended:
  "(normalize_path (normalize_path p t) t = normalize_path p t \<longleftrightarrow>
      \<not> (t = Never \<and> endsWith p ''//'' \<and> p \<noteq> ''//'')) \<and>
   normalize_path ''/'' t = ''/''"
proof (cases t)
  case Never
  have "normalize_path (normalize_path p Never) Never = normalize_path p Never \<longleftrightarrow>
          \<not> endsWith p ''//'' \<or> p = ''//''"
  proof (cases "p = ''/''")
    case True
    then show ?thesis by (simp add: normalize_path_def endsWith_def)
  next
    case root: False
    show ?thesis
    proof (cases "endsWith p ''/''")
      case False
      then show ?thesis using root by (simp add: normalize_path_def endsWith_two_slashes)
    next
      case True
      then show ?thesis
        using root butlast_is_root [OF True] butlast_differs [of "butlast p"]
        by (auto simp add: normalize_path_def endsWith_two_slashes)
    qed
  qed
  with Never show ?thesis by (simp add: normalize_path_def)
next
  case Always
  then show ?thesis by (simp add: normalize_path_def endsWith_append)
next
  case Ignore
  then show ?thesis by (simp add: normalize_path_def)
qed

theorem normalize_path_idempotent_amended_witness:
  "normalize_path (normalize_path ''/a/'' Never) Never = normalize_path ''/a/'' Never \<and>
   normalize_path (normalize_path ''/a'' Always) Always = normalize_path ''/a'' Always \<and>
   normalize_path ''/'' Never = ''/''"
  using normalize_path_idempotent_amended [of "''/a/''" Never]
    normalize_path_idempotent_amended [of "''/a''" Always]
  by (simp add: endsWith_def)

section \<open>Action dispatcher: classification of the invocation result\<close>




section \<open>Page rendering: load errors and the depth guard\<close>

lemma find_error_boundary_root:
  "0 < i \<Longrightarrow> at_index errs 0 = Some e \<Longrightarrow> e \<noteq> 0 \<Longrightarrow>
   (\<forall>k. 0 < k \<and> k < i \<longrightarrow> at_index errs k = None) \<Longrightarrow>
   find_error_boundary errs i = Some (0, e)"
proof (induction i)
  case 0
  then show ?case by simp
next
  case (Suc i)
  show ?case
  proof (cases "i = 0")
    case True
    with Suc.prems show ?thesis by simp
  next
    case False
    with Suc.prems have "at_index errs i = None" by simp
    moreover have "find_error_boundary errs i = Some (0, e)"
      using Suc False by simp
    ultimately show ?thesis by simp
  qed
qed

lemma await_loads_first_failure:
  "i < length ns \<Longrightarrow> ns ! i = Some n \<Longrightarrow> loads (off + i) = LoadThrew e \<Longrightarrow>
   (\<forall>k<i. \<forall>a. ns ! k = Some a \<longrightarrow> (\<exists>sd d. loads (off + k) = Loaded sd d)) \<Longrightarrow>
   await_loads loads ns off br = Inl (off + i, e, br @ map (entry_at loads ns off) [0..<i])"
proof (induction ns arbitrary: i off br)
  case Nil
  then show ?case by simp
next
  case (Cons x ns)
  show ?case
  proof (cases i)
    case 0
    with Cons.prems show ?thesis by (cases x) auto
  next
    case (Suc j)
    have j: "j < length ns" "ns ! j = Some n" "loads (Suc off + j) = LoadThrew e"
      using Cons.prems Suc by auto
    have ok: "\<forall>k<j. \<forall>a. ns ! k = Some a \<longrightarrow> (\<exists>sd d. loads (Suc off + k) = Loaded sd d)"
    proof (intro allI impI)
      fix k a assume "k < j" "ns ! k = Some a"
      then have "Suc k < i" "(x # ns) ! Suc k = Some a" using Suc by auto
      with Cons.prems(4) have "\<exists>sd d. loads (off + Suc k) = Loaded sd d" by blast
      then show "\<exists>sd d. loads (Suc off + k) = Loaded sd d" by simp
    qed
    have shift: "map (entry_at loads (x # ns) off) [0..<Suc j] =
      entry_at loads (x # ns) off 0 # map (entry_at loads ns (Suc off)) [0..<j]"
      by (simp add: upt_conv_Cons map_Suc_upt [symmetric] entry_at_def del: upt_Suc)
    have IH: "\<And>br. await_loads loads ns (Suc off) br =
      Inl (Suc off + j, e, br @ map (entry_at loads ns (Suc off)) [0..<j])"
      using Cons.IH [OF j ok] .
    have step: "await_loads loads (x # ns) off br =
      await_loads loads ns (Suc off) (br @ [entry_at loads (x # ns) off 0])"
    proof (cases x)
      case None
      then show ?thesis by (simp add: entry_at_def)
    next
      case (Some a)
      from Cons.prems(4) Suc Some obtain sd d where "loads (off + 0) = Loaded sd d"
        by (metis nth_Cons_0 zero_less_Suc)
      then show ?thesis using Some by (simp add: entry_at_def)
    qed
    show ?thesis
      unfolding step IH Suc shift by simp
  qed
qed

text \<open>
  Claim C1, as stated: when the load of a nested layout throws an unexpected error and
  the page has an error boundary at the root depth only, \<open>render_page\<close> falls back
  to the static error document at status 500. On the sample page the nested layout
  (position 1) throws; the \<open>while (i--)\<close> loop finds the error boundary of depth 0 and
  the page is rendered through \<open>render_response\<close> with the root layout's entry and the
  error node.
\<close>

theorem nested_load_error_counterexample:
  "outcome (render_page get_event nested_page (\<lambda>e. None) (\<lambda>v. Inr []) (\<lambda>b. Inr [])
      (\<lambda>n. plain_node) \<lparr>depth = 0, prerendering = False\<rparr> [] nested_layout_fails)
   = RenderResponse
       \<lparr>branch = [\<lparr>node = 0, server_data = Some (JObject []), data = None\<rparr>,
                  \<lparr>node = 1, server_data = None, data = None\<rparr>],
        config_ssr = True, config_csr = True, status = 500,
        error = Some (AppError ''Internal Error''), action_result = None\<rparr> \<and>
   outcome (render_page get_event nested_page (\<lambda>e. None) (\<lambda>v. Inr []) (\<lambda>b. Inr [])
      (\<lambda>n. plain_node) \<lparr>depth = 0, prerendering = False\<rparr> [] nested_layout_fails)
   \<noteq> StaticErrorPage 500 ''Internal Error''"
  by (simp add: render_page_def render_branch_def MAX_DEPTH_def is_action_json_request_def
      is_action_request_def get_event_def nested_page_def plain_node_def nested_layout_fails_def
      page_nodes_def should_prerender_def should_prerender_data_def get_option_def
      server_actions_def handle_load_error_def at_index_def compact_def List.map_filter_def
      effective_loads_def)

lemma render_page_reaches_branch:
  assumes "depth state \<le> MAX_DEPTH"
    and "\<not> is_action_json_request event"
    and "page_action event hdrs (server_actions (nodes_of (leaf page))) = Inr (ar, hdrs')"
    and "\<not> is_redirect_result ar"
  shows "\<exists>st. render_page event page hE sfy gdj nodes_of state hdrs loads =
           render_branch event page hE gdj nodes_of state loads st ar hdrs'"
proof (cases "is_action_request event")
  case False
  with assms show ?thesis by (auto simp add: render_page_def page_action_def)
next
  case True
  with assms(3) obtain r where
    r: "handle_action_request event hdrs (server_actions (nodes_of (leaf page))) = Inr (r, hdrs')"
      "ar = Some r"
    by (auto simp add: page_action_def split: sum.splits)
  with assms True show ?thesis
    by (cases r) (auto simp add: render_page_def)
qed

lemma render_branch_load_error:
  assumes "\<not> (should_prerender (map (map_option nodes_of) (page_nodes page)) \<and>
          server_actions (nodes_of (leaf page)) \<noteq> None)"
    and "prerendering state \<longrightarrow> should_prerender (map (map_option nodes_of) (page_nodes page))"
    and "get_option (map (map_option nodes_of) (page_nodes page)) ssr \<noteq> Some False"
    and "await_loads (effective_loads page ar loads) (page_nodes page) 0 [] = Inl (i, e, br)"
    and "\<not> is_Redirect e"
  shows "outcome (render_branch event page hE gdj nodes_of state loads st ar hdrs) =
     (case find_error_boundary (errors page) i of
        Some (k, index) \<Rightarrow>
          (case rewind br k of
             None \<Rightarrow> PageDiverges
           | Some j \<Rightarrow>
               RenderResponse
                 \<lparr>branch = compact (take (Suc j) br) @
                             [\<lparr>node = index, server_data = None, data = None\<rparr>],
                  config_ssr = True, config_csr = True,
                  status = error_status e,
                  error = Some (handle_error_and_jsonify event hE e),
                  action_result = None\<rparr>)
      | None \<Rightarrow>
          StaticErrorPage (error_status e) (message (handle_error_and_jsonify event hE e)))"
  using assms
  by (cases e)
    (auto simp add: render_branch_def Let_def handle_load_error_def
      split: option.splits prod.splits)

text \<open>
  Claim C1, amended: on a page render that reaches the loads (the depth is at most 10,
  the request is not a JSON action request, a form action, if there is one, neither
  throws outside its handler nor redirects, the page is neither skipped nor refused by
  prerendering, and server-side rendering is not switched off), for a page whose
  position 0 holds the root layout: when the loads awaited at a nested position
  \<open>i > 0\<close> throw a value that is not a redirect, every load before it succeeded, and
  the only error boundary below \<open>i\<close> is the one of the root depth (a nonzero node
  index), \<open>render_page\<close> re-renders from the root error boundary: it calls
  \<open>render_response\<close> with the status of the error (500 unless it is an
  \<open>HttpError\<close>), the normalised error, and the branch made of the root layout's
  entry followed by the error node. It falls back to the static error document, at that
  same status, when the loads of the root layout itself throw the value. (After an
  action that ended in an error, the loads of the leaf throw that error.)
\<close>

theorem nested_load_error:
  assumes reach: "depth state \<le> MAX_DEPTH" "\<not> is_action_json_request event"
      "page_action event hdrs (server_actions (nodes_of (leaf page))) = Inr (ar, hdrs')"
      "\<not> is_redirect_result ar"
      "\<not> (should_prerender (map (map_option nodes_of) (page_nodes page)) \<and>
          server_actions (nodes_of (leaf page)) \<noteq> None)"
      "prerendering state \<longrightarrow> should_prerender (map (map_option nodes_of) (page_nodes page))"
      "get_option (map (map_option nodes_of) (page_nodes page)) ssr \<noteq> Some False"
    and root: "page_nodes page ! 0 = Some r"
    and thrown: "\<not> is_Redirect e"
  shows
  "(effective_loads page ar loads 0 = Loaded sd0 d0 \<and> 0 < i \<and> i < length (page_nodes page) \<and>
    page_nodes page ! i = Some n \<and> effective_loads page ar loads i = LoadThrew e \<and>
    (\<forall>k<i. \<forall>a. page_nodes page ! k = Some a \<longrightarrow>
       (\<exists>sd d. effective_loads page ar loads k = Loaded sd d)) \<and>
    at_index (errors page) 0 = Some b \<and> b \<noteq> 0 \<and>
    (\<forall>k. 0 < k \<and> k < i \<longrightarrow> at_index (errors page) k = None)
    \<longrightarrow>
    outcome (render_page event page hE sfy gdj nodes_of state hdrs loads) =
      RenderResponse
        \<lparr>branch = [\<lparr>node = r, server_data = sd0, data = d0\<rparr>,
                   \<lparr>node = b, server_data = None, data = None\<rparr>],
         config_ssr = True, config_csr = True, status = error_status e,
         error = Some (handle_error_and_jsonify event hE e), action_result = None\<rparr>) \<and>
   (effective_loads page ar loads 0 = LoadThrew e
    \<longrightarrow>
    outcome (render_page event page hE sfy gdj nodes_of state hdrs loads) =
      StaticErrorPage (error_status e) (message (handle_error_and_jsonify event hE e))) \<and>
   (\<not> is_HttpError e \<longrightarrow> error_status e = 500)"
proof (intro conjI impI)
  let ?loads = "effective_loads page ar loads"
  have nonempty: "0 < length (page_nodes page)" by (simp add: page_nodes_def)
  have "\<exists>st. render_page event page hE sfy gdj nodes_of state hdrs loads
       = render_branch event page hE gdj nodes_of state loads st ar hdrs'"
    using reach(1-4) by (rule render_page_reaches_branch)
  then obtain st where to_branch:
    "render_page event page hE sfy gdj nodes_of state hdrs loads
       = render_branch event page hE gdj nodes_of state loads st ar hdrs'"
    by blast
  {
    assume a: "?loads 0 = Loaded sd0 d0 \<and> 0 < i \<and> i < length (page_nodes page) \<and>
      page_nodes page ! i = Some n \<and> ?loads i = LoadThrew e \<and>
      (\<forall>k<i. \<forall>a. page_nodes page ! k = Some a \<longrightarrow> (\<exists>sd d. ?loads k = Loaded sd d)) \<and>
      at_index (errors page) 0 = Some b \<and> b \<noteq> 0 \<and>
      (\<forall>k. 0 < k \<and> k < i \<longrightarrow> at_index (errors page) k = None)"
    define br where "br = map (entry_at ?loads (page_nodes page) 0) [0..<i]"
    have loop: "await_loads ?loads (page_nodes page) 0 [] = Inl (i, e, br)"
      using await_loads_first_failure [of i "page_nodes page" n ?loads 0 e "[]"] a
      by (simp add: br_def)
    have boundary: "find_error_boundary (errors page) i = Some (0, b)"
      using a by (intro find_error_boundary_root) auto
    have len: "length br = i" by (simp add: br_def)
    have br0: "br ! 0 = Some \<lparr>node = r, server_data = sd0, data = d0\<rparr>"
      using a root by (simp add: br_def entry_at_def)
    have at0: "at_index br 0 = Some \<lparr>node = r, server_data = sd0, data = d0\<rparr>"
      using a len br0 by (simp add: at_index_def)
    have tk: "take (Suc 0) br = [Some \<lparr>node = r, server_data = sd0, data = d0\<rparr>]"
      using a len br0 by (simp add: take_Suc_conv_app_nth)
    show "outcome (render_page event page hE sfy gdj nodes_of state hdrs loads) =
      RenderResponse
        \<lparr>branch = [\<lparr>node = r, server_data = sd0, data = d0\<rparr>,
                   \<lparr>node = b, server_data = None, data = None\<rparr>],
         config_ssr = True, config_csr = True, status = error_status e,
         error = Some (handle_error_and_jsonify event hE e), action_result = None\<rparr>"
      unfolding to_branch render_branch_load_error [OF reach(5-7) loop thrown]
      by (simp add: boundary at0 tk compact_def List.map_filter_def)
  }
  {
    assume a: "?loads 0 = LoadThrew e"
    have loop: "await_loads ?loads (page_nodes page) 0 [] = Inl (0, e, [])"
      using await_loads_first_failure [of 0 "page_nodes page" r ?loads 0 e "[]"]
        a root nonempty by simp
    show "outcome (render_page event page hE sfy gdj nodes_of state hdrs loads) =
      StaticErrorPage (error_status e) (message (handle_error_and_jsonify event hE e))"
      unfolding to_branch render_branch_load_error [OF reach(5-7) loop thrown]
      by simp
  }
  {
    assume "\<not> is_HttpError e"
    then show "error_status e = 500" by (cases e) simp_all
  }
qed

theorem nested_load_error_witness:
  "outcome (render_page get_event nested_page (\<lambda>e. None) (\<lambda>v. Inr []) (\<lambda>b. Inr [])
      (\<lambda>n. plain_node) \<lparr>depth = 0, prerendering = False\<rparr> [] nested_layout_fails)
   = RenderResponse
       \<lparr>branch = [\<lparr>node = 0, server_data = Some (JObject []), data = None\<rparr>,
                  \<lparr>node = 1, server_data = None, data = None\<rparr>],
        config_ssr = True, config_csr = True, status = 500,
        error = Some (AppError ''Internal Error''), action_result = None\<rparr> \<and>
   outcome (render_page form_event nested_page (\<lambda>e. None) (\<lambda>v. Inr []) (\<lambda>b. Inr [])
      nodes_with_action \<lparr>depth = 0, prerendering = False\<rparr> [] nested_layout_fails)
   = RenderResponse
       \<lparr>branch = [\<lparr>node = 0, server_data = Some (JObject []), data = None\<rparr>,
                  \<lparr>node = 1, server_data = None, data = None\<rparr>],
        config_ssr = True, config_csr = True, status = 500,
        error = Some (AppError ''Internal Error''), action_result = None\<rparr> \<and>
   outcome (render_page get_event nested_page (\<lambda>e. None) (\<lambda>v. Inr []) (\<lambda>b. Inr [])
      (\<lambda>n. plain_node) \<lparr>depth = 0, prerendering = False\<rparr> [] root_layout_fails)
   = StaticErrorPage 500 ''Internal Error''"
proof -
  have nat_cases: "\<forall>k::nat. k = 0 \<or> 0 < k" by auto
  have get_action: "page_action get_event [] (server_actions plain_node) = Inr (None, [])"
    by (simp add: page_action_def is_action_request_def get_event_def)
  have form_action: "page_action form_event [] (server_actions (nodes_with_action (leaf nested_page)))
      = Inr (Some (ARSuccess 200 JUndefined), [])"
    by (simp add: page_action_def is_action_request_def form_event_def nodes_with_action_def
        nested_page_def action_node_def server_actions_def handle_action_request_def
        check_named_default_separate_def call_action_def sample_actions_def lookup_action_def
        inherits_toString_def)
  show ?thesis
  using nat_cases get_action form_action
    nested_load_error [where state = "\<lparr>depth = 0, prerendering = False\<rparr>" and event = get_event
      and nodes_of = "\<lambda>n. plain_node" and page = nested_page and r = 0
      and ar = None and hdrs' = "[]" and e = "Error ''boom''"
      and loads = nested_layout_fails and ?sd0.0 = "Some (JObject [])" and ?d0.0 = None
      and i = 1 and n = 2 and b = 1 and hE = "\<lambda>e. None"
      and sfy = "\<lambda>v. Inr []" and gdj = "\<lambda>b. Inr []" and hdrs = "[]"]
    nested_load_error [where state = "\<lparr>depth = 0, prerendering = False\<rparr>" and event = form_event
      and nodes_of = nodes_with_action and page = nested_page and r = 0
      and ar = "Some (ARSuccess 200 JUndefined)" and hdrs' = "[]" and e = "Error ''boom''"
      and loads = nested_layout_fails and ?sd0.0 = "Some (JObject [])" and ?d0.0 = None
      and i = 1 and n = 2 and b = 1 and hE = "\<lambda>e. None"
      and sfy = "\<lambda>v. Inr []" and gdj = "\<lambda>b. Inr []" and hdrs = "[]"]
    nested_load_error [where state = "\<lparr>depth = 0, prerendering = False\<rparr>" and event = get_event
      and nodes_of = "\<lambda>n. plain_node" and page = nested_page and r = 0
      and ar = None and hdrs' = "[]" and e = "Error ''boom''"
      and loads = root_layout_fails and hE = "\<lambda>e. None"
      and sfy = "\<lambda>v. Inr []" and gdj = "\<lambda>b. Inr []" and hdrs = "[]"]
  by (simp add: MAX_DEPTH_def get_event_def form_event_def nested_page_def plain_node_def
      nodes_with_action_def action_node_def is_action_json_request_def effective_loads_def
      nested_layout_fails_def root_layout_fails_def page_nodes_def should_prerender_def
      get_option_def server_actions_def at_index_def)
qed

text \<open>
  Claim C9: every self-fetch that is answered in process (a same-origin request that is
  not for a static asset) is answered by \<open>respond\<close> on the request state with its
  depth raised by one, and nothing else is answered in process (\<open>RespondInProcess\<close>
  is the call of \<open>respond\<close>, which hands the state to \<open>render_page\<close> as it is);
  and a page render whose state depth exceeds the maximum, 10, returns the plain 404
  text response, starts no load and leaves the state untouched, whatever the loads
  would do.
\<close>

theorem self_fetch_depth_guard:
  "(same_origin \<and> \<not> is_asset \<longrightarrow>
      create_fetch state same_origin is_asset can_read =
        RespondInProcess (state\<lparr>depth := depth state + 1\<rparr>)) \<and>
   (create_fetch state same_origin is_asset can_read = RespondInProcess state' \<longrightarrow>
      same_origin \<and> \<not> is_asset \<and> state' = state\<lparr>depth := depth state + 1\<rparr>) \<and>
   MAX_DEPTH = 10 \<and>
   (MAX_DEPTH < depth state \<longrightarrow>
      render_page event page hE sfy gdj nodes_of state hdrs loads =
        \<lparr>outcome = TextResponse 404 (''Not found: '' @ pathname event), loads_started = [],
         set_headers = hdrs, prerender_default = None, dependencies = []\<rparr>)"
  by (auto simp add: create_fetch_def render_page_def MAX_DEPTH_def split: if_splits)

theorem self_fetch_depth_guard_witness:
  "create_fetch \<lparr>depth = 10, prerendering = False\<rparr> True False False
     = RespondInProcess (\<lparr>depth = 10, prerendering = False\<rparr>\<lparr>depth := 11\<rparr>) \<and>
   MAX_DEPTH < depth \<lparr>depth = 11, prerendering = False\<rparr> \<and>
   render_page get_event nested_page (\<lambda>e. None) (\<lambda>v. Inr []) (\<lambda>b. Inr [])
      (\<lambda>n. plain_node) \<lparr>depth = 11, prerendering = False\<rparr> [] (\<lambda>i. LoadThrew (Error ''boom''))
     = \<lparr>outcome = TextResponse 404 (''Not found: '' @ pathname get_event), loads_started = [],
        set_headers = [], prerender_default = None, dependencies = []\<rparr>"
proof -
  have deep: "MAX_DEPTH < depth \<lparr>depth = 11, prerendering = False\<rparr>"
    by (simp add: MAX_DEPTH_def)
  have raised: "depth \<lparr>depth = 10, prerendering = False\<rparr> + 1 = 11"
    by simp
  from deep
    self_fetch_depth_guard [where state = "\<lparr>depth = 11, prerendering = False\<rparr>"
      and event = get_event and page = nested_page and hE = "\<lambda>e. None"
      and sfy = "\<lambda>v. Inr []" and gdj = "\<lambda>b. Inr []" and nodes_of = "\<lambda>n. plain_node"
      and hdrs = "[]" and loads = "\<lambda>i. LoadThrew (Error ''boom'')"
      and same_origin = False and is_asset = False and can_read = False
      and state' = "\<lparr>depth = 11, prerendering = False\<rparr>"]
    self_fetch_depth_guard [where state = "\<lparr>depth = 10, prerendering = False\<rparr>"
      and event = get_event and page = nested_page and hE = "\<lambda>e. None"
      and sfy = "\<lambda>v. Inr []" and gdj = "\<lambda>b. Inr []" and nodes_of = "\<lambda>n. plain_node"
      and hdrs = "[]" and loads = "\<lambda>i. LoadThrew (Error ''boom'')"
      and same_origin = True and is_asset = False and can_read = False
      and state' = "\<lparr>depth = 11, prerendering = False\<rparr>"]
  show ?thesis unfolding raised by blast
qed

section \<open>Route matcher: the first matching candidate wins\<close>






section \<open>Cookie jar: scoping of the combined header\<close>










section \<open>CSP builder: inline scripts and the report-only check\<close>

lemma directive_update: "directive (AList.update k v d) k = v"
  by (simp add: directive_def update_conv')

lemma has_report_truthy: "truthy (has_report (directive d key)) \<longleftrightarrow> has_entries d key"
  by (auto simp add: has_report_def has_entries_def split: option.splits directive_value.splits list.splits)

lemma directive_truthy_iff: "directive_truthy v \<longleftrightarrow> v \<noteq> None \<and> v \<noteq> Some (Flag False)"
  by (cases v rule: directive_truthy.cases) auto

lemma some_directive_set_iff:
  "some_directive_set d \<longleftrightarrow> length (filter directive_truthy (map snd d)) > 0"
proof -
  have "length (filter directive_truthy (map snd d)) > 0 \<longleftrightarrow>
          (\<exists>v\<in>set (map snd d). directive_truthy v)"
    by (simp add: filter_empty_conv)
  moreover have "some_directive_set d \<longleftrightarrow> (\<exists>kv\<in>set d. directive_truthy (snd kv))"
    unfolding some_directive_set_def list_ex_iff
    by (intro bex_cong refl) (auto simp add: directive_truthy_iff split: prod.splits)
  ultimately show ?thesis by auto
qed

text \<open>
  Claim C5, as stated: under hash mode, adding two inline scripts yields two distinct
  \<open>sha256-*\<close> tokens. \<open>add_script\<close> pushes one token per call and never compares
  it with the tokens already there: two scripts with the same content give the same
  token twice.
\<close>

theorem csp_two_scripts_counterexample:
  "script_needs_csp (BaseProvider True self_only ''N'') \<and>
   script_src (add_script sample_digest ''x'' (add_script sample_digest ''x''
       (BaseProvider True self_only ''N'')))
     = [''sha256-x'', ''sha256-x''] \<and>
   \<not> distinct (script_src (add_script sample_digest ''x'' (add_script sample_digest ''x''
       (BaseProvider True self_only ''N''))))"
  by (simp add: BaseProvider_def add_script_def self_only_def needs_csp_def effective_src_def
      directive_def sample_digest_def)

text \<open>
  Claim C5, amended: for a provider whose effective script source list requires
  strengthening beyond \<open>unsafe-inline\<close>, adding two inline scripts under nonce mode
  adds exactly one entry, the token \<open>nonce-\<close> followed by the nonce (the second call
  adds nothing), so that \<open>script-src\<close> is the effective list followed by that one
  token; under hash mode it adds two \<open>sha256-*\<close> tokens, one per script in the order
  of the calls, which are distinct exactly when the digests of the two scripts differ.
\<close>

theorem csp_two_scripts:
  assumes "effective_src d ''script-src'' = Some eff" and "needs_csp (Some eff)"
  shows
  "script_src (add_script sha256 c2 (add_script sha256 c1 (BaseProvider False d n)))
     = [''nonce-'' @ n] \<and>
   directive (header_directives (add_script sha256 c2 (add_script sha256 c1 (BaseProvider False d n))))
     ''script-src'' = Some (Sources (eff @ [''nonce-'' @ n])) \<and>
   script_src (add_script sha256 c2 (add_script sha256 c1 (BaseProvider True d n)))
     = [''sha256-'' @ sha256 c1, ''sha256-'' @ sha256 c2] \<and>
   directive (header_directives (add_script sha256 c2 (add_script sha256 c1 (BaseProvider True d n))))
     ''script-src'' = Some (Sources (eff @ [''sha256-'' @ sha256 c1, ''sha256-'' @ sha256 c2])) \<and>
   (distinct [''sha256-'' @ sha256 c1, ''sha256-'' @ sha256 c2] \<longleftrightarrow> sha256 c1 \<noteq> sha256 c2)"
  using assms
  by (simp add: BaseProvider_def add_script_def header_directives_def with_src_def
      directive_update)

theorem csp_two_scripts_witness:
  "effective_src self_only ''script-src'' = Some [''self''] \<and>
   needs_csp (Some [''self'']) \<and>
   script_src (add_script sample_digest ''b'' (add_script sample_digest ''a''
       (BaseProvider False self_only ''N''))) = [''nonce-N''] \<and>
   directive (header_directives (add_script sample_digest ''b'' (add_script sample_digest ''a''
       (BaseProvider True self_only ''N'')))) ''script-src''
     = Some (Sources [''self'', ''sha256-a'', ''sha256-b'']) \<and>
   get_header (add_script sample_digest ''b'' (add_script sample_digest ''a''
       (BaseProvider False self_only ''N''))) False
     = ''script-src '' @ [CHR 0x27] @ ''self'' @ [CHR 0x27] @ '' '' @ [CHR 0x27] @ ''nonce-N'' @ [CHR 0x27]"
proof -
  have eff: "effective_src self_only ''script-src'' = Some [''self'']"
    by (simp add: effective_src_def directive_def self_only_def)
  have needs: "needs_csp (Some [''self''])"
    by (simp add: needs_csp_def)
  have header: "get_header (add_script sample_digest ''b'' (add_script sample_digest ''a''
       (BaseProvider False self_only ''N''))) False
     = ''script-src '' @ [CHR 0x27] @ ''self'' @ [CHR 0x27] @ '' '' @ [CHR 0x27] @ ''nonce-N'' @ [CHR 0x27]"
    by (simp add: get_header_def header_directives_def with_src_def add_script_def
        BaseProvider_def self_only_def effective_src_def directive_def needs_csp_def
        quote_source_def quoted_def crypto_pattern_def startsWith_def)
  from csp_two_scripts [OF eff needs, of sample_digest "''b''" "''a''" "''N''"] eff needs header
  show ?thesis by (simp add: sample_digest_def)
qed

text \<open>
  Claim C8, as stated: construction of the report-only provider fails exactly when some
  directive is non-empty and neither \<open>report-to\<close> nor \<open>report-uri\<close> is present.
  A configuration whose only directive is \<open>report-uri\<close> with an empty list has no
  non-empty directive, and its \<open>report-uri\<close> directive is there; construction
  throws all the same: the empty list is truthy for the first test and has length 0
  for the second.
\<close>

theorem report_only_construction_counterexample:
  "empty_report_uri = [(''report-uri'', Some (Sources []))] \<and>
   CspReportOnlyProvider False empty_report_uri ''N'' = Inl (Error report_only_message)"
  by (simp add: CspReportOnlyProvider_def empty_report_uri_def has_report_def directive_def
      Let_def)

text \<open>
  Claim C8, amended: construction of the report-only provider throws exactly when some
  directive of the report-only configuration is set (to a source list, be it empty, or
  to \<open>true\<close>) and neither \<open>report-to\<close> nor \<open>report-uri\<close> holds at least one
  entry; otherwise it succeeds and gives the provider that \<open>BaseProvider\<close> builds.
\<close>

theorem report_only_construction:
  "CspReportOnlyProvider h d n =
     (if some_directive_set d \<and> \<not> has_entries d ''report-to'' \<and> \<not> has_entries d ''report-uri''
      then Inl (Error report_only_message) else Inr (BaseProvider h d n))"
  by (simp add: CspReportOnlyProvider_def Let_def has_report_truthy some_directive_set_iff)

theorem report_only_construction_witness:
  "CspReportOnlyProvider True self_only ''N'' = Inl (Error report_only_message) \<and>
   CspReportOnlyProvider True reporting ''N'' = Inr (BaseProvider True reporting ''N'') \<and>
   CspReportOnlyProvider True [(''script-src'', None)] ''N''
     = Inr (BaseProvider True [(''script-src'', None)] ''N'')"
  using report_only_construction [of True self_only "''N''"]
    report_only_construction [of True reporting "''N''"]
    report_only_construction [of True "[(''script-src'', None)]" "''N''"]
  by (simp add: some_directive_set_def has_entries_def directive_def self_only_def
      reporting_def)

section \<open>Conditional requests\<close>

lemma copy_headers_lookup:
  "map_of (copy_headers keys source hdrs) k =
     (if k \<in> set keys \<and> map_of source k \<noteq> None \<and> map_of source k \<noteq> Some []
      then map_of source k else map_of hdrs k)"
  by (induction keys arbitrary: hdrs) (auto simp add: update_conv' split: option.splits)

text \<open>
  Claim C7, as stated: every request whose \<open>If-None-Match\<close>, stripped of the weak
  prefix, equals the ETag of the resolved response is answered with a 304 without
  body. The test is made for a response of status 200 only: an error page of status
  404, which \<open>render_response\<close> gives an ETag like any buffered page, is returned as
  it is, with its body, to a request that carries that ETag.
\<close>

theorem conditional_request_counterexample:
  "map_of (resp_headers sample_error_page) ''etag'' = Some (quote_etag ''1x2y3z'') \<and>
   strip_weak (Some (''W/'' @ quote_etag ''1x2y3z'')) = Some (quote_etag ''1x2y3z'') \<and>
   respond_etag False (Some (''W/'' @ quote_etag ''1x2y3z'')) sample_error_page
     = Returned sample_error_page \<and>
   resp_status sample_error_page = 404 \<and>
   resp_body sample_error_page = Some ''<h1>Not found</h1>''"
  by (simp add: sample_error_page_def buffered_page_response_def text_response_def
      respond_etag_def strip_weak_def quote_etag_def startsWith_def)

text \<open>
  Claim C7, amended: for every request whose \<open>If-None-Match\<close> header, after the weak
  prefix \<open>W/\<close> is cut off a value that starts with \<open>W/"\<close>, equals the ETag of the
  resolved response, and whose resolved response has status 200, the dispatcher
  answers with a 304 response without body whose headers are the ETag and those of
  \<open>cache-control\<close>, \<open>content-location\<close>, \<open>date\<close>, \<open>expires\<close>, \<open>vary\<close> and
  \<open>set-cookie\<close> that the response carries with a non-empty value, and no other.
\<close>

theorem conditional_request:
  assumes "resp_status rsp = 200"
    and "map_of (resp_headers rsp) ''etag'' = Some etag"
    and "strip_weak if_none_match = Some etag"
  shows
  "respond_etag is_data_request if_none_match rsp =
     Returned \<lparr>resp_status = 304,
               resp_headers = copy_headers conditional_headers (resp_headers rsp) [(''etag'', etag)],
               resp_body = None\<rparr> \<and>
   (\<forall>k. map_of (copy_headers conditional_headers (resp_headers rsp) [(''etag'', etag)]) k =
      (if k \<in> set conditional_headers \<and> map_of (resp_headers rsp) k \<noteq> None \<and>
          map_of (resp_headers rsp) k \<noteq> Some []
       then map_of (resp_headers rsp) k
       else if k = ''etag'' then Some etag else None))"
  using assms by (simp add: respond_etag_def copy_headers_lookup)

theorem conditional_request_witness:
  "resp_status sample_page = 200 \<and>
   map_of (resp_headers sample_page) ''etag'' = Some (quote_etag ''1x2y3z'') \<and>
   strip_weak (Some (''W/'' @ quote_etag ''1x2y3z'')) = Some (quote_etag ''1x2y3z'') \<and>
   respond_etag False (Some (''W/'' @ quote_etag ''1x2y3z'')) sample_page =
     Returned \<lparr>resp_status = 304,
       resp_headers = [(''etag'', quote_etag ''1x2y3z''), (''cache-control'', ''max-age=60'')],
       resp_body = None\<rparr>"
proof -
  have st: "resp_status sample_page = 200"
    by (simp add: sample_page_def buffered_page_response_def text_response_def)
  have hdrs: "resp_headers sample_page =
      [(''content-type'', ''text/html''), (''cache-control'', ''max-age=60''),
       (''link'', ''</app.js>; rel=modulepreload''), (''etag'', quote_etag ''1x2y3z''),
       (''content-length'', string_of_nat (length ''<h1>Hi</h1>''))]"
    by (simp add: sample_page_def buffered_page_response_def text_response_def)
  have etag: "map_of (resp_headers sample_page) ''etag'' = Some (quote_etag ''1x2y3z'')"
    by (simp add: hdrs)
  have inm: "strip_weak (Some (''W/'' @ quote_etag ''1x2y3z'')) = Some (quote_etag ''1x2y3z'')"
    by (simp add: strip_weak_def quote_etag_def startsWith_def)
  from conditional_request [OF st etag inm, of False] st etag inm
  show ?thesis by (simp add: hdrs conditional_headers_def)
qed

end
